theory Spec2Isabelle
  imports Complex_Main
begin

section \<open>The base copula contract of copulae/copula/base.py\<close>

text \<open>
  \<open>BaseCopula\<close> is an abstract Python class: it fixes the operations every copula family
  offers, supplies the shared ones (\<open>fit\<close>, \<open>log_lik\<close>, the concentration functions,
  \<open>random\<close>, \<open>lambda_\<close>) and leaves the rest to the subclasses. The embedding below keeps
  this shape: the instance attributes are a record, the methods a subclass may or must
  supply are a second record of functions, and every method of \<open>BaseCopula\<close> is a HOL
  function of the two.

  Two idealisations are made throughout. Python floats are modelled as real numbers: the
  guards of the source compare against the exactly representable constants 0, 0.5 and 1,
  so they are modelled exactly for every float that is a number, while sums and quotients
  are the exact ones, without rounding. An array of floats is a list of reals.
\<close>

subsection \<open>Exceptions\<close>

text \<open>
  The exceptions the source raises, by their Python names. \<open>ValueError\<close> and
  \<open>RuntimeError\<close> carry the message of the \<^verbatim>\<open>raise\<close> statement. \<open>TypeError\<close> is what
  a call with the wrong number of positional arguments raises. \<open>EstimationError\<close> stands
  for the failure of the estimator, which the source only calls.
\<close>

datatype error =
    NotImplementedError
  | ValueError string
  | RuntimeError string
  | TypeError
  | EstimationError

subsection \<open>Data\<close>

type_synonym matrix = "real list list"

text \<open>
  Modelled from the spec: the class \<open>AbstractCopula\<close> (copulae.copula.abstract), which
  declares the attributes of an instance, is not among the sources. The record has the
  attributes the data model lists: the dimension and the name handed to the constructor,
  the parameter vector, and \<open>fit_stats\<close>, which is \<open>None\<close> until a fit has succeeded.
  The type of the statistics is left open.
\<close>

record 'st copula =
  dim :: int
  name :: string
  params :: "real list"
  fit_stats :: "'st option"

text \<open>The named tuple with the fields \<open>lower\<close> and \<open>upper\<close> that \<open>lambda_\<close> returns.\<close>

record TailDep =
  lower :: "real list"
  upper :: "real list"

text \<open>
  The result of a float division whose numerator comes from \<open>cdf\<close>, declared to return a
  numpy array: numpy divides by zero without raising (the result is an infinity or nan,
  with a warning), so a zero denominator is a value of its own, which keeps the
  numerator, and never HOL's \<open>a / 0 = 0\<close>.
\<close>

datatype quotient = Quot real | ZeroDiv real

definition true_divide :: "real \<Rightarrow> real \<Rightarrow> quotient" where
  "true_divide a b = (if b = 0 then ZeroDiv a else Quot (a / b))"

subsection \<open>What a family supplies\<close>

text \<open>
  A method that \<open>BaseCopula\<close> defines with the body \<^verbatim>\<open>raise NotImplementedError\<close> and
  that a subclass may override is an optional field: \<open>None\<close> when the family inherits
  the body of the base class. The abstract methods \<^verbatim>\<open>__lambda__\<close> and \<^verbatim>\<open>__random__\<close>
  must be overridden before a class can be instantiated, so they are plain fields.
  \<^verbatim>\<open>__lambda__\<close> returns a sequence, which \<open>lambda_\<close> unpacks. \<^verbatim>\<open>__random__\<close> draws
  from a random generator: it takes the state \<open>'w\<close> of everything outside the instance
  and returns the new one.
\<close>

record ('st, 'w) family =
  cdf_override :: "('st copula \<Rightarrow> real list \<Rightarrow> bool \<Rightarrow> error + real) option"
  pdf_override :: "('st copula \<Rightarrow> matrix \<Rightarrow> bool \<Rightarrow> error + real list) option"
  tau_override :: "('st copula \<Rightarrow> error + real list) option"
  rho_override :: "('st copula \<Rightarrow> error + real list) option"
  itau_override :: "('st copula \<Rightarrow> real list \<Rightarrow> error + real list) option"
  irho_override :: "('st copula \<Rightarrow> real list \<Rightarrow> error + real list) option"
  dtau_override :: "('st copula \<Rightarrow> real list option \<Rightarrow> error + real list) option"
  drho_override :: "('st copula \<Rightarrow> real list option \<Rightarrow> error + real list) option"
  lambda_dunder :: "'st copula \<Rightarrow> error + real list list"
  random_dunder :: "'w \<Rightarrow> 'st copula \<Rightarrow> int \<Rightarrow> int option \<Rightarrow> 'w \<times> (error + matrix)"

subsection \<open>The methods of BaseCopula\<close>

definition cdf :: "('st, 'w) family \<Rightarrow> 'st copula \<Rightarrow> real list \<Rightarrow> bool \<Rightarrow> error + real" where
  "cdf fam self x lg =
     (case cdf_override fam of None \<Rightarrow> Inl NotImplementedError | Some f \<Rightarrow> f self x lg)"

definition pdf :: "('st, 'w) family \<Rightarrow> 'st copula \<Rightarrow> matrix \<Rightarrow> bool \<Rightarrow> error + real list" where
  "pdf fam self x lg =
     (case pdf_override fam of None \<Rightarrow> Inl NotImplementedError | Some f \<Rightarrow> f self x lg)"

definition concentration_down :: "('st, 'w) family \<Rightarrow> 'st copula \<Rightarrow> real \<Rightarrow> error + quotient" where
  "concentration_down fam self x =
     (if x > 0.5 \<or> x < 0
      then Inl (ValueError ''The argument must be included between 0 and 0.5.'')
      else case cdf fam self [x, x] False of
             Inl e \<Rightarrow> Inl e
           | Inr c \<Rightarrow> Inr (true_divide c x))"

definition concentration_up :: "('st, 'w) family \<Rightarrow> 'st copula \<Rightarrow> real \<Rightarrow> error + quotient" where
  "concentration_up fam self x =
     (if x < 0.5 \<or> x > 1
      then Inl (ValueError ''The argument must be included between 0.5 and 1.'')
      else case cdf fam self [x, x] False of
             Inl e \<Rightarrow> Inl e
           | Inr c \<Rightarrow> Inr (true_divide (1 - 2 * x + c) (1 - x)))"

definition concentration_function :: "('st, 'w) family \<Rightarrow> 'st copula \<Rightarrow> real \<Rightarrow> error + quotient" where
  "concentration_function fam self x =
     (if x < 0 \<or> x > 1
      then Inl (ValueError ''The argument must be included between 0 and 1.'')
      else if x < 0.5 then concentration_down fam self x
      else concentration_up fam self x)"

definition log_lik :: "('st, 'w) family \<Rightarrow> 'st copula \<Rightarrow> matrix \<Rightarrow> error + real" where
  "log_lik fam self data =
     (case pdf fam self data True of Inl e \<Rightarrow> Inl e | Inr d \<Rightarrow> Inr (sum_list d))"

text \<open>
  The six dependence measures. \<open>dtau\<close> and \<open>drho\<close> are properties whose getter has the
  optional argument \<open>x\<close>; the getter of the base class raises whatever \<open>x\<close> is.
\<close>

definition tau :: "('st, 'w) family \<Rightarrow> 'st copula \<Rightarrow> error + real list" where
  "tau fam self =
     (case tau_override fam of None \<Rightarrow> Inl NotImplementedError | Some f \<Rightarrow> f self)"

definition rho :: "('st, 'w) family \<Rightarrow> 'st copula \<Rightarrow> error + real list" where
  "rho fam self =
     (case rho_override fam of None \<Rightarrow> Inl NotImplementedError | Some f \<Rightarrow> f self)"

definition itau :: "('st, 'w) family \<Rightarrow> 'st copula \<Rightarrow> real list \<Rightarrow> error + real list" where
  "itau fam self t =
     (case itau_override fam of None \<Rightarrow> Inl NotImplementedError | Some f \<Rightarrow> f self t)"

definition irho :: "('st, 'w) family \<Rightarrow> 'st copula \<Rightarrow> real list \<Rightarrow> error + real list" where
  "irho fam self r =
     (case irho_override fam of None \<Rightarrow> Inl NotImplementedError | Some f \<Rightarrow> f self r)"

definition dtau :: "('st, 'w) family \<Rightarrow> 'st copula \<Rightarrow> real list option \<Rightarrow> error + real list" where
  "dtau fam self x =
     (case dtau_override fam of None \<Rightarrow> Inl NotImplementedError | Some f \<Rightarrow> f self x)"

definition drho :: "('st, 'w) family \<Rightarrow> 'st copula \<Rightarrow> real list option \<Rightarrow> error + real list" where
  "drho fam self x =
     (case drho_override fam of None \<Rightarrow> Inl NotImplementedError | Some f \<Rightarrow> f self x)"

text \<open>
  \<open>lambda_\<close> builds its result type with \<open>namedtuple\<close> of the standard library
  (\<open>collections\<close>), which validates the names it is given before it creates the class.
  The type name and the field names, in this order, must each be an identifier and must
  not be a keyword of the language; then no field name may start with an underscore or
  occur twice. The first name that fails raises a \<open>ValueError\<close> that quotes it. The names
  here are ASCII, so an identifier is a letter or underscore followed by letters, digits
  and underscores. The class that is returned is represented by its field names.
\<close>

definition kwlist :: "string list" where
  "kwlist =
     [''False'', ''None'', ''True'', ''and'', ''as'', ''assert'', ''async'', ''await'',
      ''break'', ''class'', ''continue'', ''def'', ''del'', ''elif'', ''else'', ''except'',
      ''finally'', ''for'', ''from'', ''global'', ''if'', ''import'', ''in'', ''is'',
      ''lambda'', ''nonlocal'', ''not'', ''or'', ''pass'', ''raise'', ''return'', ''try'',
      ''while'', ''with'', ''yield'']"

definition iskeyword :: "string \<Rightarrow> bool" where
  "iskeyword s = (s \<in> set kwlist)"

definition isidentifier :: "string \<Rightarrow> bool" where
  "isidentifier s =
     (case s of
        [] \<Rightarrow> False
      | c # cs \<Rightarrow>
          c \<in> set ''abcdefghijklmnopqrstuvwxyzABCDEFGHIJKLMNOPQRSTUVWXYZ_''
          \<and> list_all (\<lambda>d. d \<in> set
                ''abcdefghijklmnopqrstuvwxyzABCDEFGHIJKLMNOPQRSTUVWXYZ_0123456789'') cs)"

definition repr :: "string \<Rightarrow> string" where
  "repr s = CHR 0x27 # s @ [CHR 0x27]"

fun check_names :: "string list \<Rightarrow> error option" where
  "check_names [] = None"
| "check_names (n # ns) =
     (if \<not> isidentifier n
      then Some (ValueError (''Type names and field names must be valid identifiers: '' @ repr n))
      else if iskeyword n
      then Some (ValueError (''Type names and field names cannot be a keyword: '' @ repr n))
      else check_names ns)"

fun check_fields :: "string list \<Rightarrow> string list \<Rightarrow> error option" where
  "check_fields seen [] = None"
| "check_fields seen (n # ns) =
     (if take 1 n = ''_''
      then Some (ValueError (''Field names cannot start with an underscore: '' @ repr n))
      else if n \<in> set seen
      then Some (ValueError (''Encountered duplicate field name: '' @ repr n))
      else check_fields (n # seen) ns)"

definition namedtuple :: "string \<Rightarrow> string list \<Rightarrow> error + string list" where
  "namedtuple typename field_names =
     (case check_names (typename # field_names) of
        Some e \<Rightarrow> Inl e
      | None \<Rightarrow>
          (case check_fields [] field_names of
             Some e \<Rightarrow> Inl e
           | None \<Rightarrow> Inr field_names))"

text \<open>
  The property \<open>lambda_\<close>, here \<open>lambda_property\<close> (a constant cannot end in an
  underscore). Its first statement creates the tuple class under the type name
  \<open>lambda\<close>, with the fields \<open>lower\<close> and \<open>upper\<close>. Its second statement evaluates
  \<^verbatim>\<open>__lambda__\<close> and unpacks the sequence into the two positional arguments of the
  class: a sequence of any other length is a \<open>TypeError\<close>.
\<close>

definition lambda_property :: "('st, 'w) family \<Rightarrow> 'st copula \<Rightarrow> error + TailDep" where
  "lambda_property fam self =
     (case namedtuple ''lambda'' [''lower'', ''upper''] of
        Inl e \<Rightarrow> Inl e
      | Inr Lambda \<Rightarrow>
          (case lambda_dunder fam self of
             Inl e \<Rightarrow> Inl e
           | Inr [lo, up] \<Rightarrow> Inr \<lparr>lower = lo, upper = up\<rparr>
           | Inr _ \<Rightarrow> Inl TypeError))"

text \<open>
  \<open>random\<close> reads \<open>fit_stats\<close> and either raises, leaving the outside state as it is,
  or hands \<open>n\<close> and \<open>seed\<close> to \<^verbatim>\<open>__random__\<close>.
\<close>

definition random :: "('st, 'w) family \<Rightarrow> 'w \<Rightarrow> 'st copula \<Rightarrow> int \<Rightarrow> int option
    \<Rightarrow> 'w \<times> (error + matrix)" where
  "random fam w self n seed =
     (if fit_stats self = None
      then (w, Inl (RuntimeError ''Copula must be fitted before it can generate random numbers''))
      else random_dunder fam w self n seed)"

subsection \<open>Fitting\<close>

text \<open>
  The functions \<open>pseudo_obs\<close> (copulae.math_tools.misc) and \<open>CopulaEstimator\<close>
  (copulae.estimators) are imported by the source and not part of it: \<open>pobs\<close> and \<open>fit\<close>
  take them as parameters. The estimator receives the instance and mutates it, and it may
  raise: it returns the instance as it leaves it, and the exception if there is one.

  An argument left out of a call takes the default of the signature: \<open>ties\<close> is optional
  in \<open>pobs\<close>, and \<open>fit\<close> calls \<open>pobs\<close> without it. \<open>fit\<close> has no \<^verbatim>\<open>return\<close>
  statement: its value is \<open>()\<close>.
\<close>

type_synonym transform = "matrix \<Rightarrow> string \<Rightarrow> error + matrix"

type_synonym ('st, 'o) estimator =
  "'st copula \<Rightarrow> matrix \<Rightarrow> real list option \<Rightarrow> string \<Rightarrow> bool \<Rightarrow> int \<Rightarrow> 'o option
     \<Rightarrow> 'st copula \<times> error option"

definition pobs :: "transform \<Rightarrow> matrix \<Rightarrow> string option \<Rightarrow> error + matrix" where
  "pobs pseudo_obs data ties =
     pseudo_obs data (case ties of None \<Rightarrow> ''average'' | Some t \<Rightarrow> t)"

definition fit :: "transform \<Rightarrow> ('st, 'o) estimator \<Rightarrow> 'st copula \<Rightarrow> matrix \<Rightarrow> real list option
    \<Rightarrow> string \<Rightarrow> bool \<Rightarrow> int \<Rightarrow> 'o option \<Rightarrow> 'st copula \<times> (error + unit)" where
  "fit pseudo_obs estimator self data x0 method est_var verbose optim_options =
     (case pobs pseudo_obs data None of
        Inl e \<Rightarrow> (self, Inl e)
      | Inr data' \<Rightarrow>
          (case estimator self data' x0 method est_var verbose optim_options of
             (self', Some e) \<Rightarrow> (self', Inl e)
           | (self', None) \<Rightarrow> (self', Inr ())))"

text \<open>
  Modelled from the spec: the record that the estimator stores in \<open>fit_stats\<close> is not
  declared in the sources. It holds the final parameter vector and the achieved
  log-likelihood, and the standard errors when they were asked for and could be had.
\<close>

record fit_summary =
  est_params :: "real list"
  log_likelihood :: real
  std_errors :: "real list option"

text \<open>
  Modelled from the spec: the class \<open>CopulaEstimator\<close> (copulae.estimators) is not among
  the sources. By the spec it drives an external optimizer, \<open>minimize\<close>, which yields
  the best parameters and the log-likelihood reached, or does not converge (\<open>None\<close>).
  On convergence the estimator sets \<open>params\<close> to the optimized values and populates
  \<open>fit_stats\<close>, with the standard errors from an external numerical method \<open>variance\<close>
  when \<open>est_var\<close> is set, their absence being no failure. When the optimizer does not
  converge it fails with \<open>EstimationError\<close> and the instance stays as it was.
\<close>

definition CopulaEstimator ::
  "(fit_summary copula \<Rightarrow> matrix \<Rightarrow> real list option \<Rightarrow> string \<Rightarrow> int \<Rightarrow> 'o option
      \<Rightarrow> (real list \<times> real) option)
    \<Rightarrow> (fit_summary copula \<Rightarrow> matrix \<Rightarrow> real list \<Rightarrow> real list option)
    \<Rightarrow> (fit_summary, 'o) estimator" where
  "CopulaEstimator minimize variance self data x0 method est_var verbose optim_options =
     (case minimize self data x0 method verbose optim_options of
        None \<Rightarrow> (self, Some EstimationError)
      | Some (p, ll) \<Rightarrow>
          (self\<lparr>params := p,
                fit_stats := Some \<lparr>est_params = p, log_likelihood = ll,
                  std_errors = (if est_var then variance self data p else None)\<rparr>\<rparr>,
           None))"

subsection \<open>Two concrete families\<close>

text \<open>
  \<open>BaseCopula\<close> cannot be instantiated, so the theorems below are evaluated on two small
  families. The independence copula has the distribution function \<open>u * v\<close>, hence
  \<open>x\<^sup>2\<close> on the diagonal, the density 1 (0 on the log scale), no tail dependence, and
  none of the dependence measures; its sampler here fills the matrix with \<open>1/2\<close> and
  counts its calls in the outside state. The mixture \<open>\<theta> * min u v + (1 - \<theta>) * u * v\<close>
  of the upper Frechet bound and independence, with \<open>\<theta>\<close> the single parameter, has no
  density, and both its tail dependence coefficients are \<open>\<theta>\<close>.
\<close>

definition independence :: "(fit_summary, nat) family" where
  "independence =
     \<lparr>cdf_override = Some (\<lambda>self x lg. Inr (prod_list x)),
      pdf_override = Some (\<lambda>self x lg. Inr (map (\<lambda>row. if lg then 0 else 1) x)),
      tau_override = None, rho_override = None,
      itau_override = None, irho_override = None,
      dtau_override = None, drho_override = None,
      lambda_dunder = (\<lambda>self. Inr [[0], [0]]),
      random_dunder = (\<lambda>w self n seed.
        (Suc w, Inr (replicate (nat n) (replicate (nat (dim self)) (1 / 2)))))\<rparr>"

definition mixture :: "(fit_summary, nat) family" where
  "mixture =
     independence
       \<lparr>cdf_override := Some (\<lambda>self x lg.
          Inr (hd (params self) * Min (set x) + (1 - hd (params self)) * prod_list x)),
        pdf_override := None,
        lambda_dunder := (\<lambda>self. Inr [params self, params self])\<rparr>"

definition unfitted :: "fit_summary copula" where
  "unfitted = \<lparr>dim = 2, name = ''example'', params = [1 / 4], fit_stats = None\<rparr>"

definition fitted :: "fit_summary copula" where
  "fitted = unfitted\<lparr>fit_stats :=
     Some \<lparr>est_params = [1 / 4], log_likelihood = 0, std_errors = None\<rparr>\<rparr>"

section \<open>Properties\<close>

lemmas example_defs = independence_def mixture_def unfitted_def fitted_def

subsection \<open>The fit-state guard\<close>

text \<open>
  Claim C1. On an instance whose \<open>fit_stats\<close> is \<open>None\<close>, \<open>random n seed\<close> raises the
  \<open>RuntimeError\<close> "Copula must be fitted before it can generate random numbers" (the
  precondition error of the spec) and the sampling primitive is not invoked: whatever
  the primitive is, the state outside the instance is the one before the call. On an
  instance whose \<open>fit_stats\<close> is populated, \<open>random n seed\<close> is the call of
  \<^verbatim>\<open>__random__\<close> with the same \<open>n\<close> and \<open>seed\<close>.
\<close>

theorem random_fit_state_guard:
  "(fit_stats self = None \<longrightarrow>
      random fam w self n seed
        = (w, Inl (RuntimeError ''Copula must be fitted before it can generate random numbers'')))
   \<and> (fit_stats self \<noteq> None \<longrightarrow>
      random fam w self n seed = random_dunder fam w self n seed)"
  by (simp add: random_def)

theorem random_fit_state_guard_witness:
  "random independence 0 unfitted 3 (Some 7)
     = (0, Inl (RuntimeError ''Copula must be fitted before it can generate random numbers''))
   \<and> random independence 0 fitted 3 (Some 7)
     = (1, Inr [[1 / 2, 1 / 2], [1 / 2, 1 / 2], [1 / 2, 1 / 2]])"
  using random_fit_state_guard [of unfitted independence 0 3 "Some 7"]
    random_fit_state_guard [of fitted independence 0 3 "Some 7"]
  by (simp add: example_defs eval_nat_numeral)

subsection \<open>Fitting\<close>

text \<open>
  Claim C2. A call of \<open>fit\<close> that fails leaves \<open>params\<close> and \<open>fit_stats\<close> as they were
  before the call. \<open>fit\<close> itself neither catches an exception nor restores anything:
  it fails when the pseudo-observation transform raises, before the estimator has seen the
  instance, or when the estimator raises, and then the instance is as the estimator left
  it. The estimator is the one described by the spec, for any optimizer and any variance
  method.
\<close>

theorem fit_failure_leaves_instance:
  "fit pseudo_obs (CopulaEstimator minimize variance) self data x0 method est_var verbose
       optim_options = (self', Inl e)
   \<Longrightarrow> params self' = params self \<and> fit_stats self' = fit_stats self"
  by (auto simp: fit_def CopulaEstimator_def split: sum.splits option.splits prod.splits)

theorem fit_failure_leaves_instance_witness:
  "fit (\<lambda>d t. Inr d) (CopulaEstimator (\<lambda>c d x0 m v opts. None) (\<lambda>c d p. None))
       fitted [[1, 2], [3, 4]] None ''mpl'' False 1 (None :: unit option)
     = (fitted, Inl EstimationError)
   \<and> params fitted = [1 / 4]
   \<and> fit_stats fitted = Some \<lparr>est_params = [1 / 4], log_likelihood = 0, std_errors = None\<rparr>"
proof -
  have f: "fit (\<lambda>d t. Inr d) (CopulaEstimator (\<lambda>c d x0 m v opts. None) (\<lambda>c d p. None))
       fitted [[1, 2], [3, 4]] None ''mpl'' False 1 (None :: unit option)
     = (fitted, Inl EstimationError)"
    by (simp add: fit_def pobs_def CopulaEstimator_def)
  from fit_failure_leaves_instance [OF f] f show ?thesis
    by (simp add: fitted_def unfitted_def)
qed

text \<open>
  Claim C7. \<open>fit\<close> first transforms the data with the pseudo-observation transform under
  the ties policy \<open>''average''\<close>; it then hands the instance, the transformed data and
  \<open>x0\<close>, \<open>method\<close>, \<open>est_var\<close>, \<open>verbose\<close> and \<open>optim_options\<close> as they came to the
  estimator, whatever the estimator is. The instance after the call is the one the
  estimator leaves, an exception of the estimator is passed on, and otherwise the value
  is \<open>()\<close>, Python's \<open>None\<close>. If the transform raises, the estimator is not reached.
\<close>

theorem fit_delegates:
  "fit pseudo_obs estimator self data x0 method est_var verbose optim_options =
     (case pseudo_obs data ''average'' of
        Inl e \<Rightarrow> (self, Inl e)
      | Inr u \<Rightarrow>
          (fst (estimator self u x0 method est_var verbose optim_options),
           case snd (estimator self u x0 method est_var verbose optim_options) of
             None \<Rightarrow> Inr () | Some e \<Rightarrow> Inl e))"
  by (simp add: fit_def pobs_def split: sum.splits prod.splits option.splits)

subsection \<open>The log-likelihood\<close>

text \<open>
  Claim C3. For a family that implements \<open>pdf\<close>, \<open>log_lik data\<close> is the sum of the
  entries of \<open>pdf data\<close> taken on the log scale, one entry for each observation; an
  exception of \<open>pdf\<close> is passed on. \<open>log_lik\<close> is defined from \<open>pdf\<close> alone: for a family
  without a \<open>pdf\<close> it raises the \<open>NotImplementedError\<close> of the base class.
\<close>

theorem log_lik_is_sum_of_log_pdf:
  "(pdf_override fam = Some f \<and> f self data True = Inr d \<longrightarrow>
      log_lik fam self data = Inr (sum_list d))
   \<and> (pdf_override fam = Some f \<and> f self data True = Inl e \<longrightarrow>
      log_lik fam self data = Inl e)
   \<and> (pdf_override fam = None \<longrightarrow> log_lik fam self data = Inl NotImplementedError)"
  by (simp add: log_lik_def pdf_def)

theorem log_lik_is_sum_of_log_pdf_witness:
  "log_lik independence fitted [[1 / 4, 3 / 4], [1 / 2, 1 / 2], [3 / 4, 1 / 4]] = Inr 0
   \<and> log_lik (independence\<lparr>pdf_override := Some (\<lambda>self x lg. Inr (map sum_list x))\<rparr>)
        fitted [[1 / 4, 3 / 4], [1 / 2, 1]] = Inr (5 / 2)
   \<and> log_lik (independence\<lparr>pdf_override := Some (\<lambda>self x lg. Inl (ValueError ''data''))\<rparr>)
        fitted [[2, 3]] = Inl (ValueError ''data'')
   \<and> log_lik mixture fitted [[1 / 4, 3 / 4]] = Inl NotImplementedError"
  using
    log_lik_is_sum_of_log_pdf [where fam = independence and self = fitted
      and f = "\<lambda>self x lg. Inr (map (\<lambda>row. if lg then 0 else 1) x)"
      and data = "[[1 / 4, 3 / 4], [1 / 2, 1 / 2], [3 / 4, 1 / 4]]" and d = "[0, 0, 0]"]
    log_lik_is_sum_of_log_pdf [where self = fitted
      and fam = "independence\<lparr>pdf_override := Some (\<lambda>self x lg. Inr (map sum_list x))\<rparr>"
      and f = "\<lambda>self x lg. Inr (map sum_list x)"
      and data = "[[1 / 4, 3 / 4], [1 / 2, 1]]" and d = "[1, 3 / 2]"]
    log_lik_is_sum_of_log_pdf [where self = fitted
      and fam = "independence\<lparr>pdf_override := Some (\<lambda>self x lg. Inl (ValueError ''data''))\<rparr>"
      and f = "\<lambda>self x lg. Inl (ValueError ''data'')"
      and data = "[[2, 3]]" and e = "ValueError ''data''"]
    log_lik_is_sum_of_log_pdf [where fam = mixture and self = fitted and data = "[[1 / 4, 3 / 4]]"]
  by (simp add: example_defs)

subsection \<open>The concentration functions\<close>

text \<open>
  Claim C4. \<open>concentration_function x\<close> is \<open>concentration_down x\<close> for \<open>x\<close> in \<open>[0, 0.5)\<close>,
  it is \<open>concentration_up x\<close> for \<open>x\<close> in \<open>[0.5, 1]\<close>, the boundary \<open>0.5\<close> included, and it
  raises the \<open>ValueError\<close> of its own guard (the domain error of the spec) for \<open>x\<close>
  outside \<open>[0, 1]\<close>.
\<close>

theorem concentration_function_dispatch:
  "(0 \<le> x \<and> x < 0.5 \<longrightarrow>
      concentration_function fam self x = concentration_down fam self x)
   \<and> (0.5 \<le> x \<and> x \<le> 1 \<longrightarrow>
      concentration_function fam self x = concentration_up fam self x)
   \<and> (x < 0 \<or> 1 < x \<longrightarrow>
      concentration_function fam self x
        = Inl (ValueError ''The argument must be included between 0 and 1.''))"
  by (simp add: concentration_function_def)

theorem concentration_function_dispatch_witness:
  "concentration_function independence fitted 0.3 = concentration_down independence fitted 0.3
   \<and> concentration_down independence fitted 0.3 = Inr (Quot 0.3)
   \<and> concentration_function independence fitted 0.5 = concentration_up independence fitted 0.5
   \<and> concentration_up independence fitted 0.5 = Inr (Quot 0.5)
   \<and> concentration_function independence fitted 1.5
       = Inl (ValueError ''The argument must be included between 0 and 1.'')"
  using concentration_function_dispatch [where x = "0.3" and fam = independence and self = fitted]
    concentration_function_dispatch [where x = "0.5" and fam = independence and self = fitted]
    concentration_function_dispatch [where x = "1.5" and fam = independence and self = fitted]
  by (simp add: example_defs concentration_down_def concentration_up_def cdf_def true_divide_def)

text \<open>
  Claim C5. \<open>concentration_down x\<close> raises the \<open>ValueError\<close> of its guard for every \<open>x\<close>
  outside \<open>[0, 0.5]\<close>, and \<open>concentration_up x\<close> for every \<open>x\<close> outside \<open>[0.5, 1]\<close>.
  Inside the domain neither raises anything of its own: an exception there is one that
  the \<open>cdf\<close> of the family raised. So for a \<open>cdf\<close> that raises no \<open>ValueError\<close> at
  \<open>(x, x)\<close>, each function raises a \<open>ValueError\<close> exactly when \<open>x\<close> is outside its
  domain; \<open>concentration_down 0.5\<close> does not raise and \<open>concentration_down 0.6\<close> does.
\<close>

theorem concentration_domain_guards:
  "(x < 0 \<or> 0.5 < x \<longrightarrow>
      concentration_down fam self x
        = Inl (ValueError ''The argument must be included between 0 and 0.5.''))
   \<and> (0 \<le> x \<and> x \<le> 0.5 \<longrightarrow>
      (\<forall>e. concentration_down fam self x = Inl e \<longrightarrow> cdf fam self [x, x] False = Inl e))
   \<and> (x < 0.5 \<or> 1 < x \<longrightarrow>
      concentration_up fam self x
        = Inl (ValueError ''The argument must be included between 0.5 and 1.''))
   \<and> (0.5 \<le> x \<and> x \<le> 1 \<longrightarrow>
      (\<forall>e. concentration_up fam self x = Inl e \<longrightarrow> cdf fam self [x, x] False = Inl e))
   \<and> ((\<forall>m. cdf fam self [x, x] False \<noteq> Inl (ValueError m)) \<longrightarrow>
      ((\<exists>m. concentration_down fam self x = Inl (ValueError m)) \<longleftrightarrow> x < 0 \<or> 0.5 < x)
      \<and> ((\<exists>m. concentration_up fam self x = Inl (ValueError m)) \<longleftrightarrow> x < 0.5 \<or> 1 < x))"
  by (auto simp: concentration_down_def concentration_up_def split: sum.splits)

theorem concentration_domain_guards_witness:
  "concentration_down independence fitted 0.6
     = Inl (ValueError ''The argument must be included between 0 and 0.5.'')
   \<and> (\<nexists>e. concentration_down independence fitted 0.5 = Inl e)
   \<and> (\<nexists>e. concentration_down independence fitted 0 = Inl e)
   \<and> concentration_down independence fitted (- 0.1)
     = Inl (ValueError ''The argument must be included between 0 and 0.5.'')
   \<and> concentration_up independence fitted 0.4
     = Inl (ValueError ''The argument must be included between 0.5 and 1.'')
   \<and> (\<nexists>e. concentration_up independence fitted 0.5 = Inl e)
   \<and> (\<nexists>e. concentration_up independence fitted 1 = Inl e)
   \<and> concentration_up independence fitted 1.1
     = Inl (ValueError ''The argument must be included between 0.5 and 1.'')
   \<and> (\<forall>m. cdf independence fitted [0.5, 0.5] False \<noteq> Inl (ValueError m))
   \<and> (\<nexists>m. concentration_down independence fitted 0.5 = Inl (ValueError m))"
proof -
  have c: "cdf independence fitted [x, x] False = Inr (x * x)" for x
    by (simp add: cdf_def independence_def)
  show ?thesis
    using concentration_domain_guards [where fam = independence and self = fitted and x = "0.6"]
      concentration_domain_guards [where fam = independence and self = fitted and x = "0.5"]
      concentration_domain_guards [where fam = independence and self = fitted and x = 0]
      concentration_domain_guards [where fam = independence and self = fitted and x = "- 0.1"]
      concentration_domain_guards [where fam = independence and self = fitted and x = "0.4"]
      concentration_domain_guards [where fam = independence and self = fitted and x = 1]
      concentration_domain_guards [where fam = independence and self = fitted and x = "1.1"]
    by (simp add: c)
qed

text \<open>
  Claim C6. Where \<open>cdf\<close> returns \<open>c\<close> at \<open>(x, x)\<close>, \<open>concentration_down x\<close> is the
  quotient of \<open>c\<close> by \<open>x\<close> for \<open>x\<close> in \<open>[0, 0.5]\<close>, and \<open>concentration_up x\<close> the quotient
  of \<open>1 - 2x + c\<close> by \<open>1 - x\<close> for \<open>x\<close> in \<open>[0.5, 1]\<close>: the real numbers \<open>c / x\<close> and
  \<open>(1 - 2x + c) / (1 - x)\<close> whenever the denominator is not zero. For a family with
  \<open>cdf (x, x) = x\<^sup>2\<close>, \<open>concentration_down 0.3\<close> is \<open>0.3\<close>.
\<close>

theorem concentration_formulas:
  assumes "cdf fam self [x, x] False = Inr c"
  shows "(0 \<le> x \<and> x \<le> 0.5 \<longrightarrow> concentration_down fam self x = Inr (true_divide c x))
    \<and> (0 < x \<and> x \<le> 0.5 \<longrightarrow> concentration_down fam self x = Inr (Quot (c / x)))
    \<and> (0.5 \<le> x \<and> x \<le> 1 \<longrightarrow>
          concentration_up fam self x = Inr (true_divide (1 - 2 * x + c) (1 - x)))
    \<and> (0.5 \<le> x \<and> x < 1 \<longrightarrow>
          concentration_up fam self x = Inr (Quot ((1 - 2 * x + c) / (1 - x))))
    \<and> (x = 0.3 \<and> c = x\<^sup>2 \<longrightarrow> concentration_down fam self x = Inr (Quot 0.3))"
  using assms
  by (auto simp: concentration_down_def concentration_up_def true_divide_def power2_eq_square)

theorem concentration_formulas_witness:
  "concentration_down independence fitted 0.3 = Inr (Quot 0.3)
   \<and> concentration_down mixture fitted 0.3 = Inr (Quot (19 / 40))
   \<and> concentration_up mixture fitted 0.75 = Inr (Quot (7 / 16))"
proof -
  have c: "cdf independence fitted [0.3, 0.3] False = Inr ((0.3)\<^sup>2)"
    by (simp add: cdf_def independence_def power2_eq_square)
  have d: "cdf mixture fitted [0.3, 0.3] False = Inr (57 / 400)"
    by (simp add: cdf_def example_defs)
  have u: "cdf mixture fitted [0.75, 0.75] False = Inr (39 / 64)"
    by (simp add: cdf_def example_defs)
  show ?thesis
    using concentration_formulas [OF c] concentration_formulas [OF d] concentration_formulas [OF u]
    by (simp add: true_divide_def power2_eq_square)
qed

text \<open>
  Claim C10. The guards let the endpoints through at which the denominator vanishes:
  \<open>concentration_down 0\<close> passes the range check and divides \<open>cdf (0, 0)\<close> by zero,
  \<open>concentration_up 1\<close> passes it and divides \<open>1 - 2 + cdf (1, 1)\<close> by zero. Neither call
  raises the \<open>ValueError\<close> of the guard; the result is that of the unchecked division.
\<close>

theorem concentration_endpoints_unguarded:
  "(cdf fam self [0, 0] False = Inr c \<longrightarrow> concentration_down fam self 0 = Inr (ZeroDiv c))
   \<and> (cdf fam self [1, 1] False = Inr c \<longrightarrow>
        concentration_up fam self 1 = Inr (ZeroDiv (1 - 2 + c)))"
  by (simp add: concentration_down_def concentration_up_def true_divide_def)

theorem concentration_endpoints_unguarded_witness:
  "concentration_down independence fitted 0 = Inr (ZeroDiv 0)
   \<and> concentration_up independence fitted 1 = Inr (ZeroDiv 0)
   \<and> concentration_down mixture fitted 0 = Inr (ZeroDiv 0)"
  using concentration_endpoints_unguarded [of independence fitted 0]
    concentration_endpoints_unguarded [of independence fitted 1]
    concentration_endpoints_unguarded [of mixture fitted 0]
  by (simp add: cdf_def example_defs)

subsection \<open>The dependence measures\<close>

text \<open>
  Claim C8. For a family that supplies no implementation of its own, each of \<open>tau\<close>,
  \<open>rho\<close>, \<open>itau\<close>, \<open>irho\<close>, \<open>dtau\<close> and \<open>drho\<close> raises \<open>NotImplementedError\<close>, whatever
  the arguments.
\<close>

theorem base_measures_not_implemented:
  "(tau_override fam = None \<longrightarrow> tau fam self = Inl NotImplementedError)
   \<and> (rho_override fam = None \<longrightarrow> rho fam self = Inl NotImplementedError)
   \<and> (itau_override fam = None \<longrightarrow> itau fam self tau_values = Inl NotImplementedError)
   \<and> (irho_override fam = None \<longrightarrow> irho fam self rho_values = Inl NotImplementedError)
   \<and> (dtau_override fam = None \<longrightarrow> dtau fam self x = Inl NotImplementedError)
   \<and> (drho_override fam = None \<longrightarrow> drho fam self x = Inl NotImplementedError)"
  by (simp add: tau_def rho_def itau_def irho_def dtau_def drho_def)

theorem base_measures_not_implemented_witness:
  "tau independence fitted = Inl NotImplementedError
   \<and> rho independence fitted = Inl NotImplementedError
   \<and> itau independence fitted [1 / 2] = Inl NotImplementedError
   \<and> irho independence fitted [1 / 2] = Inl NotImplementedError
   \<and> dtau independence fitted None = Inl NotImplementedError
   \<and> drho independence fitted (Some [1 / 4]) = Inl NotImplementedError"
  using base_measures_not_implemented [of independence fitted "[1 / 2]" "[1 / 2]" None]
    base_measures_not_implemented [of independence fitted "[1 / 2]" "[1 / 2]" "Some [1 / 4]"]
  by (simp add: independence_def)

text \<open>
  Claim C9. By its docstring, an access to the tail-dependence property returns the named
  tuple of \<open>lower\<close> and \<open>upper\<close> built from \<^verbatim>\<open>__lambda__\<close>. The code does not get
  that far: the type name it hands to \<open>namedtuple\<close> is \<open>lambda\<close>, a keyword, so for
  every family and every instance the access raises the \<open>ValueError\<close> of the name check,
  before \<^verbatim>\<open>__lambda__\<close> is evaluated, and no record is returned. With a type name that
  is not a keyword, such as \<open>Lambda\<close>, the class is created.
\<close>

theorem lambda_property_raises:
  "lambda_property fam self
     = Inl (ValueError (''Type names and field names cannot be a keyword: '' @ repr ''lambda''))
   \<and> (\<nexists>t. lambda_property fam self = Inr t)
   \<and> namedtuple ''Lambda'' [''lower'', ''upper''] = Inr [''lower'', ''upper'']"
  by (simp add: lambda_property_def namedtuple_def isidentifier_def iskeyword_def kwlist_def)

end
